theory Spec2Isabelle
  imports Main "HOL-Library.Sublist"
begin

section \<open>Strings\<close>

text \<open>
  JavaScript strings are modelled as Isabelle strings: lists of 8-bit characters, read as
  the code points U+0000 to U+00FF. \<open>includesStr\<close> is \<open>String.prototype.includes\<close>:
  \<open>includesStr s pat\<close> holds when \<open>pat\<close> occurs in \<open>s\<close> as a contiguous run.
\<close>

fun includesStr :: "string \<Rightarrow> string \<Rightarrow> bool" where
  "includesStr [] pat = (pat = [])"
| "includesStr (c # cs) pat = (prefix pat (c # cs) \<or> includesStr cs pat)"

text \<open>
  \<open>String.prototype.toLowerCase\<close> on the modelled range: the letters A to Z and the
  Latin-1 capitals U+00C0 to U+00DE (without the multiplication sign U+00D7) move up by 32,
  every other character stays.
\<close>

definition lowerChar :: "char \<Rightarrow> char" where
  "lowerChar c =
     (let n = (of_char c :: nat) in
      if (65 \<le> n \<and> n \<le> 90) \<or> (192 \<le> n \<and> n \<le> 222 \<and> n \<noteq> 215)
      then char_of (n + 32) else c)"

definition toLowerCase :: "string \<Rightarrow> string" where
  "toLowerCase s = map lowerChar s"

text \<open>
  A number inside a template literal. Numbers are modelled as integers, printed in
  decimal with a leading minus sign when negative.
\<close>

definition digitChar :: "nat \<Rightarrow> char" where
  "digitChar d = ''0123456789'' ! d"

fun digits :: "nat \<Rightarrow> string" where
  "digits n = (if n < 10 then [digitChar n] else digits (n div 10) @ [digitChar (n mod 10)])"

declare digits.simps [simp del]

definition showNumber :: "int \<Rightarrow> string" where
  "showNumber i = (if i < 0 then CHR ''-'' # digits (nat (- i)) else digits (nat i))"

section \<open>Thrown values (errors.ts and the cockatiel error classes)\<close>

text \<open>
  The value of a property that the code inspects: missing, a number, a string, or
  something else.
\<close>

datatype jsprop = Absent | Num int | Str string | Other

text \<open>
  The \<open>response\<close> property: missing, an object (of which only its own \<open>status\<close>
  property matters), or a value that is falsy or not an object.
\<close>

datatype jsresponse = NoResponse | ResponseObject jsprop | ResponseOther

record errprops =
  message :: string
  status :: jsprop
  statusCode :: jsprop
  response :: jsresponse
  code :: jsprop

text \<open>
  Everything that can be thrown or be the reason of a rejected promise:
  \<^item> \<open>JsError\<close>: an instance of \<open>Error\<close> that belongs to none of the classes below, with
    the properties user code may have attached;
  \<^item> \<open>NonError\<close>: a thrown value other than \<open>undefined\<close> and \<open>null\<close> that is not an
    instance of \<open>Error\<close>;
  \<^item> \<open>CockatielBulkheadRejectedError\<close>, \<open>CockatielTimeoutError\<close>: the two cockatiel classes
    imported by policies.ts (the latter is cockatiel's \<open>TaskCancelledError\<close>), with their
    message;
  \<^item> the four classes of errors.ts. \<open>ResilienceError\<close> carries its message and optional
    cause, \<open>RetryExhaustedError\<close> the attempts and the last error, \<open>TimeoutError\<close> the
    duration, \<open>BulkheadRejectedError\<close> the queue size and the maximum queue;
  \<^item> \<open>ThrownUndefined\<close>, \<open>ThrownNull\<close>: the values \<open>undefined\<close> and \<open>null\<close>, thrown or used
    as the reason of a rejection.
\<close>

datatype thrown =
    JsError errprops
  | NonError errprops
  | CockatielBulkheadRejectedError string
  | CockatielTimeoutError string
  | ResilienceError string "thrown option"
  | RetryExhaustedError int thrown
  | TimeoutError int
  | BulkheadRejectedError int int
  | ThrownUndefined
  | ThrownNull

fun instanceofError :: "thrown \<Rightarrow> bool" where
  "instanceofError (NonError p) = False"
| "instanceofError ThrownUndefined = False"
| "instanceofError ThrownNull = False"
| "instanceofError e = True"

text \<open>The values whose properties cannot be read: \<open>undefined\<close> and \<open>null\<close>.\<close>

fun isNullish :: "thrown \<Rightarrow> bool" where
  "isNullish ThrownUndefined = True"
| "isNullish ThrownNull = True"
| "isNullish e = False"

text \<open>
  \<open>instanceof ResilienceError\<close>: the base class of errors.ts and its three subclasses.
  \<open>isTypedFailure\<close> singles out the three subclasses.
\<close>

fun instanceofResilienceError :: "thrown \<Rightarrow> bool" where
  "instanceofResilienceError (ResilienceError m c) = True"
| "instanceofResilienceError (RetryExhaustedError n e) = True"
| "instanceofResilienceError (TimeoutError d) = True"
| "instanceofResilienceError (BulkheadRejectedError q m) = True"
| "instanceofResilienceError e = False"

fun isTypedFailure :: "thrown \<Rightarrow> bool" where
  "isTypedFailure (RetryExhaustedError n e) = True"
| "isTypedFailure (TimeoutError d) = True"
| "isTypedFailure (BulkheadRejectedError q m) = True"
| "isTypedFailure e = False"

fun isCockatielError :: "thrown \<Rightarrow> bool" where
  "isCockatielError (CockatielBulkheadRejectedError m) = True"
| "isCockatielError (CockatielTimeoutError m) = True"
| "isCockatielError e = False"

text \<open>
  The \<open>message\<close> property, as the constructors of errors.ts compute it; it is a string,
  and a value without a message reads as the empty string. Reading it from \<open>undefined\<close>
  or \<open>null\<close> throws (see \<open>messageTypeError\<close> below); the code that reads it checks
  \<open>isNullish\<close> first, and the empty string given here is never used.
\<close>

fun messageOf :: "thrown \<Rightarrow> string" where
  "messageOf (JsError p) = message p"
| "messageOf (NonError p) = message p"
| "messageOf (CockatielBulkheadRejectedError m) = m"
| "messageOf (CockatielTimeoutError m) = m"
| "messageOf (ResilienceError m c) = m"
| "messageOf (RetryExhaustedError n e) =
     ''Retry exhausted after '' @ showNumber n @ '' attempts: '' @ messageOf e"
| "messageOf (TimeoutError d) = ''Operation timed out after '' @ showNumber d @ ''ms''"
| "messageOf (BulkheadRejectedError q m) =
     ''Bulkhead queue full: '' @ showNumber q @ ''/'' @ showNumber m @ '' requests queued''"
| "messageOf ThrownUndefined = []"
| "messageOf ThrownNull = []"

text \<open>
  The other inspected properties. Only user-made values carry them; the class instances
  are built by constructors that set none of them.
\<close>

fun propsOf :: "thrown \<Rightarrow> errprops option" where
  "propsOf (JsError p) = Some p"
| "propsOf (NonError p) = Some p"
| "propsOf e = None"

definition statusOf :: "thrown \<Rightarrow> jsprop" where
  "statusOf e = (case propsOf e of Some p \<Rightarrow> status p | None \<Rightarrow> Absent)"

definition statusCodeOf :: "thrown \<Rightarrow> jsprop" where
  "statusCodeOf e = (case propsOf e of Some p \<Rightarrow> statusCode p | None \<Rightarrow> Absent)"

definition responseOf :: "thrown \<Rightarrow> jsresponse" where
  "responseOf e = (case propsOf e of Some p \<Rightarrow> response p | None \<Rightarrow> NoResponse)"

definition codeOf :: "thrown \<Rightarrow> jsprop" where
  "codeOf e = (case propsOf e of Some p \<Rightarrow> code p | None \<Rightarrow> Absent)"

section \<open>The default error filter (defaults.ts)\<close>

definition NON_RETRYABLE_STATUS_CODES :: "int list" where
  "NON_RETRYABLE_STATUS_CODES = [400, 401, 403, 404, 422]"

definition NETWORK_ERROR_CODES :: "string list" where
  "NETWORK_ERROR_CODES = [''ECONNRESET'', ''ETIMEDOUT'', ''ECONNREFUSED'', ''ENETUNREACH'']"

text \<open>The \<open>in\<close> operator on the inspected properties.\<close>

fun present :: "jsprop \<Rightarrow> bool" where
  "present Absent = False"
| "present p = True"

fun responsePresent :: "jsresponse \<Rightarrow> bool" where
  "responsePresent NoResponse = False"
| "responsePresent r = True"

definition isHttpError :: "thrown \<Rightarrow> bool" where
  "isHttpError error =
     (if instanceofError error
      then present (statusOf error) \<or> present (statusCodeOf error) \<or>
           responsePresent (responseOf error)
      else False)"

definition getStatusCode :: "thrown \<Rightarrow> int option" where
  "getStatusCode error =
     (case statusOf error of
        Num n \<Rightarrow> Some n
      | _ \<Rightarrow>
        (case statusCodeOf error of
           Num n \<Rightarrow> Some n
         | _ \<Rightarrow>
           (case responseOf error of
              ResponseObject (Num n) \<Rightarrow> Some n
            | _ \<Rightarrow> None)))"

definition hasNetworkCode :: "thrown \<Rightarrow> bool" where
  "hasNetworkCode error =
     (case codeOf error of Str c \<Rightarrow> c \<noteq> [] \<and> c \<in> set NETWORK_ERROR_CODES | _ \<Rightarrow> False)"

definition hasNetworkMessage :: "thrown \<Rightarrow> bool" where
  "hasNetworkMessage error =
     (let msg = toLowerCase (messageOf error)
      in includesStr msg ''fetch failed'' \<or> includesStr msg ''network'')"

definition isNetworkError :: "thrown \<Rightarrow> bool" where
  "isNetworkError error =
     (if instanceofError error
      then (if hasNetworkCode error then True
            else if hasNetworkMessage error then True
            else False)
      else False)"

definition isRetryableError :: "thrown \<Rightarrow> bool" where
  "isRetryableError error =
     (case (if isHttpError error then getStatusCode error else None) of
        Some st \<Rightarrow>
          if st \<in> set NON_RETRYABLE_STATUS_CODES then False
          else if st \<ge> 500 then True
          else (if isNetworkError error then True else False)
      | None \<Rightarrow> (if isNetworkError error then True else False))"

text \<open>The test helpers \<open>createHttpError\<close> and \<open>createNetworkError\<close> of retry.test.ts.\<close>

definition plainError :: "string \<Rightarrow> thrown" where
  "plainError m =
     JsError \<lparr>message = m, status = Absent, statusCode = Absent, response = NoResponse, code = Absent\<rparr>"

definition createHttpError :: "int \<Rightarrow> thrown" where
  "createHttpError st =
     JsError \<lparr>message = ''HTTP Error '' @ showNumber st, status = Num st, statusCode = Absent,
              response = NoResponse, code = Absent\<rparr>"

definition createNetworkError :: "string \<Rightarrow> thrown" where
  "createNetworkError c =
     JsError \<lparr>message = ''Network error: '' @ c, status = Absent, statusCode = Absent,
              response = NoResponse, code = Str c\<rparr>"

section \<open>Options and defaults (types.ts)\<close>

datatype backoffKind = Exponential | Fixed

record retryOptions =
  attempts :: "int option"
  delay :: "int option"
  maxDelay :: "int option"
  backoff :: "backoffKind option"
  jitter :: "bool option"
  shouldRetry :: "(thrown \<Rightarrow> bool) option"

record bulkheadOptions =
  maxConcurrent :: "int option"
  maxQueue :: "int option"

definition RETRY_DEFAULTS_attempts :: int where "RETRY_DEFAULTS_attempts = 3"
definition RETRY_DEFAULTS_delay :: int where "RETRY_DEFAULTS_delay = 200"
definition RETRY_DEFAULTS_maxDelay :: int where "RETRY_DEFAULTS_maxDelay = 10000"
definition RETRY_DEFAULTS_backoff :: backoffKind where "RETRY_DEFAULTS_backoff = Exponential"
definition RETRY_DEFAULTS_jitter :: bool where "RETRY_DEFAULTS_jitter = True"
definition BULKHEAD_DEFAULTS_maxConcurrent :: int where "BULKHEAD_DEFAULTS_maxConcurrent = 10"
definition BULKHEAD_DEFAULTS_maxQueue :: int where "BULKHEAD_DEFAULTS_maxQueue = 100"
definition TIMEOUT_DEFAULT :: int where "TIMEOUT_DEFAULT = 30000"

text \<open>The nullish coalescing operator \<open>x ?? d\<close>.\<close>

fun orElse :: "'a option \<Rightarrow> 'a \<Rightarrow> 'a" where
  "orElse None d = d"
| "orElse (Some x) d = x"

section \<open>Promises, values and the observable state\<close>

text \<open>
  How an awaited promise ends: it resolves, it rejects, or it is still unsettled when
  the party that awaits it stops waiting (\<open>Pending\<close>).
\<close>

datatype 'r outcome = Resolve 'r | Reject thrown | Pending

text \<open>
  A value of the wrapped function's return type \<open>TReturn\<close>, as far as
  \<open>executeWithFallback\<close> can tell values apart: \<open>undefined\<close>, a function (given by what a
  call with an error argument yields), or any other value.
\<close>

datatype 'a jsvalue = Undefined | Data 'a | Function "thrown \<Rightarrow> 'a jsvalue outcome"

text \<open>
  The two metrics callbacks that withResilience calls itself. A callback is given by what
  a call of it does: \<open>None\<close> when it returns, \<open>Some e\<close> when it throws \<open>e\<close>. \<open>onSuccess\<close>
  gets the attempts, \<open>onFailure\<close> the attempts and the error. The other three callbacks
  are called by the library's policies.
\<close>

record resilienceMetrics =
  onSuccess :: "(nat \<Rightarrow> thrown option) option"
  onFailure :: "(nat \<Rightarrow> thrown \<Rightarrow> thrown option) option"

text \<open>
  The calls of the logger that resilience.ts makes itself: \<open>info\<close> with the attempts,
  \<open>warn\<close> with the message of the error, \<open>error\<close> with the attempts and the message of the
  error. A logger is given by what each call of it does: \<open>None\<close> when it returns, \<open>Some e\<close>
  when it throws \<open>e\<close>. The option \<open>logger\<close> is \<open>None\<close> when no logger is configured; the
  arguments of a call are evaluated only when there is one.
\<close>

datatype logCall = LogInfo nat | LogWarn string | LogError nat string

record 'a resilienceOptions =
  retry :: "retryOptions option"
  bulkhead :: "bulkheadOptions option"
  timeout :: "int option"
  fallback :: "'a jsvalue"
  logger :: "(logCall \<Rightarrow> thrown option) option"
  metrics :: "resilienceMetrics option"

text \<open>
  The notifications sent to the metrics sink, in the order they are sent: \<open>OnRetry\<close> with
  attempt, maximum attempts, error and delay; \<open>OnSuccess\<close> with the attempts;
  \<open>OnFailure\<close> with the attempts and the error; \<open>OnBulkheadRejected\<close> with queue size and
  maximum queue; \<open>OnTimeout\<close> with the duration. A slot that is not configured drops its
  notification. \<open>FallbackCall\<close> marks the call of a fallback function with its argument.
  An event records that the code reached the call of the slot. Durations and names are
  not modelled.
\<close>

datatype event =
    OnRetry nat int thrown int
  | OnSuccess nat
  | OnFailure nat thrown
  | OnBulkheadRejected int int
  | OnTimeout int
  | FallbackCall thrown

text \<open>
  The state one wrapped call runs in: its own \<open>attemptCount\<close>, the bulkhead's in-flight
  count and queue length, the delays that the library's random jitter generator draws
  for each retry, and the notifications sent so far.
\<close>

record world =
  attemptCount :: nat
  inFlight :: nat
  queued :: nat
  jitterDraw :: "nat \<Rightarrow> int"
  trace :: "event list"

definition emit :: "event list \<Rightarrow> world \<Rightarrow> world" where
  "emit evs w = w\<lparr>trace := trace w @ evs\<rparr>"

type_synonym 'a task = "world \<Rightarrow> 'a jsvalue outcome \<times> world"
type_synonym 'a policy = "'a task \<Rightarrow> 'a task"

section \<open>Policies (policies.ts)\<close>

text \<open>
  Modelled from the spec: the classes \<open>ExponentialBackoff\<close> and \<open>ConstantBackoff\<close> that
  createRetryPolicy instantiates belong to the cockatiel library and are not under src/.
  Section 4.2 gives the computed delay of the retry after failed attempt \<open>attempt\<close>
  (counted from 1): exponential \<open>min(baseDelay * 2^(attempt-1), maxDelay)\<close>, fixed
  \<open>baseDelay\<close>.
\<close>

definition computedDelay :: "backoffKind \<Rightarrow> int \<Rightarrow> int \<Rightarrow> nat \<Rightarrow> int" where
  "computedDelay kind baseDelay maxDelayCap attempt =
     (case kind of
        Exponential \<Rightarrow> min (baseDelay * 2 ^ (attempt - 1)) maxDelayCap
      | Fixed \<Rightarrow> baseDelay)"

text \<open>
  The backoff generator chosen by createRetryPolicy: exponential backoff uses the
  library's random generator when \<open>jitter\<close> is set and \<open>noJitterGenerator\<close> otherwise;
  fixed backoff is \<open>ConstantBackoff(delay)\<close>, whatever \<open>jitter\<close> and \<open>maxDelay\<close> are.
\<close>

definition backoffGenerator :: "backoffKind \<Rightarrow> bool \<Rightarrow> int \<Rightarrow> int \<Rightarrow> nat \<Rightarrow> world \<Rightarrow> int" where
  "backoffGenerator kind jit baseDelay maxDelayCap attempt w =
     (if kind = Exponential
      then (if jit then jitterDraw w attempt
            else computedDelay Exponential baseDelay maxDelayCap attempt)
      else computedDelay Fixed baseDelay maxDelayCap attempt)"

text \<open>
  Modelled from the spec: how many retries the library grants for \<open>maxAttempts\<close> is decided
  inside cockatiel's \<open>retry\<close>. Section 3 says that \<open>maxAttempts\<close> counts the first try.
\<close>

definition retriesGranted :: "int \<Rightarrow> nat" where
  "retriesGranted maxAttempts = nat (maxAttempts - 1)"

text \<open>
  Modelled from the spec: the loop of cockatiel's \<open>retry\<close>, which createRetryPolicy only
  configures, is not under src/. Section 4.2: invoke the operation; a success ends the
  loop; after a failure the classifier is consulted, and the loop ends when the error is
  not retryable or no retry is left; otherwise the delay is computed, the retry is
  notified and the operation runs again with the attempt index incremented. When the loop
  gives up it rejects with the operation's last error: RetryExhaustedError is a class of
  errors.ts, built only by transformCockatielError. The arguments are the classifier, the
  delay of each retry, the configured attempts (for the notification), the retries left
  and the index of the attempt that runs next.
\<close>

fun retryLoop ::
  "(thrown \<Rightarrow> bool) \<Rightarrow> (nat \<Rightarrow> world \<Rightarrow> int) \<Rightarrow> int \<Rightarrow> nat \<Rightarrow> nat \<Rightarrow> 'a policy" where
  "retryLoop classify delayOf maxAttempts 0 attempt operation w = operation w"
| "retryLoop classify delayOf maxAttempts (Suc left) attempt operation w =
     (case operation w of
        (Reject error, w1) \<Rightarrow>
          if classify error
          then retryLoop classify delayOf maxAttempts left (Suc attempt) operation
                 (emit [OnRetry attempt maxAttempts error (delayOf attempt w1)] w1)
          else (Reject error, w1)
      | (r, w1) \<Rightarrow> (r, w1))"

definition createRetryPolicy ::
  "int \<Rightarrow> int \<Rightarrow> int \<Rightarrow> backoffKind \<Rightarrow> bool \<Rightarrow> (thrown \<Rightarrow> bool) \<Rightarrow> 'a policy" where
  "createRetryPolicy attemptsV delayV maxDelayV backoffV jitterV shouldRetryV =
     retryLoop shouldRetryV (backoffGenerator backoffV jitterV delayV maxDelayV)
       attemptsV (retriesGranted attemptsV) 1"

text \<open>
  Modelled from the spec: the admission control of cockatiel's \<open>bulkhead\<close> is not under
  src/. Section 4.3: with a free slot the call is admitted and releases the slot when it
  ends; otherwise, with room in the queue, it is enqueued and suspended; otherwise it is
  rejected at once. A release hands the slot to the oldest waiter when there is one. The
  rejection callback wired by createBulkheadPolicy reports \<open>maxQueue\<close> as the queue size.
\<close>

definition release :: "world \<Rightarrow> world" where
  "release w = (if 0 < queued w then w\<lparr>queued := queued w - 1\<rparr>
                else w\<lparr>inFlight := inFlight w - 1\<rparr>)"

definition createBulkheadPolicy :: "int \<Rightarrow> int \<Rightarrow> 'a policy" where
  "createBulkheadPolicy maxConcurrentV maxQueueV operation w =
     (if int (inFlight w) < maxConcurrentV then
        (case operation (w\<lparr>inFlight := inFlight w + 1\<rparr>) of
           (Pending, w1) \<Rightarrow> (Pending, w1)
         | (r, w1) \<Rightarrow> (r, release w1))
      else if int (queued w) < maxQueueV then (Pending, w\<lparr>queued := queued w + 1\<rparr>)
      else (Reject (CockatielBulkheadRejectedError ''Bulkhead capacity exceeded''),
            emit [OnBulkheadRejected maxQueueV maxQueueV] w))"

text \<open>
  Modelled from the spec: cockatiel's \<open>timeout\<close> is not under src/. Section 4.4: when the
  deadline passes before the inner execution settles, waiting is abandoned and the call
  fails with the library's cancellation error; a result that arrives in time passes
  through unchanged. The callback wired by createTimeoutPolicy reports the duration.
\<close>

definition createTimeoutPolicy :: "int \<Rightarrow> 'a policy" where
  "createTimeoutPolicy timeoutMs operation w =
     (case operation w of
        (Pending, w1) \<Rightarrow>
          (Reject (CockatielTimeoutError ''Operation cancelled''), emit [OnTimeout timeoutMs] w1)
      | (r, w1) \<Rightarrow> (r, w1))"

text \<open>
  \<open>composePolicies\<close>: no policy runs the function directly, one policy is used as it is,
  several are nested by the library's \<open>wrap\<close>, the first policy outermost.
\<close>

definition wrap :: "'a policy list \<Rightarrow> 'a policy" where
  "wrap ps operation = foldr (\<lambda>p inner. p inner) ps operation"

definition composePolicies :: "'a policy list \<Rightarrow> 'a policy" where
  "composePolicies ps =
     (if length ps = 0 then (\<lambda>operation. operation)
      else if length ps = 1 then hd ps
      else wrap ps)"

section \<open>The wrapper (resilience.ts)\<close>

record errorConfig =
  cfgTimeout :: "int option"
  cfgMaxQueue :: "int option"
  cfgAttempts :: "int option"

fun transformCockatielError :: "thrown \<Rightarrow> errorConfig \<Rightarrow> thrown" where
  "transformCockatielError (CockatielBulkheadRejectedError m) config =
     BulkheadRejectedError (orElse (cfgMaxQueue config) 0) (orElse (cfgMaxQueue config) 0)"
| "transformCockatielError (CockatielTimeoutError m) config =
     TimeoutError (orElse (cfgTimeout config) 0)"
| "transformCockatielError error config =
     (if instanceofError error \<and> includesStr (messageOf error) ''retry''
      then RetryExhaustedError (orElse (cfgAttempts config) 0) error
      else error)"

text \<open>
  The \<open>TypeError\<close> that reading \<open>transformedError.message\<close> throws when the transformed
  error is \<open>undefined\<close> or \<open>null\<close>.
\<close>

definition messageTypeError :: "thrown \<Rightarrow> thrown" where
  "messageTypeError v =
     plainError (''Cannot read properties of '' @
                 (case v of ThrownNull \<Rightarrow> ''null'' | _ \<Rightarrow> ''undefined'') @
                 '' (reading '' @ [CHR 0x27] @ ''message'' @ [CHR 0x27] @ '')'')"

text \<open>
  A call \<open>logger?.warn(..., { error: transformedError.message })\<close> or
  \<open>logger?.error(..., { error: transformedError.message })\<close>: nothing happens without a
  logger; otherwise the message is read, which throws for \<open>undefined\<close> and \<open>null\<close>, and the
  method is called. \<open>logInfo\<close> is the call \<open>logger?.info(...)\<close>.
\<close>

definition logWithMessage ::
  "(logCall \<Rightarrow> thrown option) option \<Rightarrow> (string \<Rightarrow> logCall) \<Rightarrow> thrown \<Rightarrow> thrown option" where
  "logWithMessage loggerV call transformedError =
     (case loggerV of
        None \<Rightarrow> None
      | Some l \<Rightarrow>
          if isNullish transformedError then Some (messageTypeError transformedError)
          else l (call (messageOf transformedError)))"

definition logInfo :: "(logCall \<Rightarrow> thrown option) option \<Rightarrow> nat \<Rightarrow> thrown option" where
  "logInfo loggerV n = (case loggerV of None \<Rightarrow> None | Some l \<Rightarrow> l (LogInfo n))"

fun isUndefined :: "'a jsvalue \<Rightarrow> bool" where
  "isUndefined Undefined = True"
| "isUndefined v = False"

text \<open>
  \<open>executeWithFallback\<close>; \<open>errorConfig\<close> is the pair of \<open>timeout\<close> and \<open>maxQueue\<close> that
  withResilience passes. \<open>logger?.warn\<close> is called before the fallback is applied; an
  exception thrown by it leaves the function.
\<close>

definition executeWithFallback ::
  "'a task \<Rightarrow> 'a jsvalue \<Rightarrow> (logCall \<Rightarrow> thrown option) option \<Rightarrow> int \<times> int \<Rightarrow> 'a task" where
  "executeWithFallback execute fallbackV loggerV errorCfg w =
     (case execute w of
        (Reject error, w1) \<Rightarrow>
          (let transformedError = transformCockatielError error
                 \<lparr>cfgTimeout = Some (fst errorCfg), cfgMaxQueue = Some (snd errorCfg),
                  cfgAttempts = Some 0\<rparr>
           in if isUndefined fallbackV then (Reject transformedError, w1)
              else (case logWithMessage loggerV LogWarn transformedError of
                      Some thrownByLogger \<Rightarrow> (Reject thrownByLogger, w1)
                    | None \<Rightarrow>
                        (case fallbackV of
                           Function f \<Rightarrow>
                             (f transformedError, emit [FallbackCall transformedError] w1)
                         | v \<Rightarrow> (Resolve v, w1))))
      | (r, w1) \<Rightarrow> (r, w1))"

text \<open>
  \<open>executeWithTracking\<close>: counts the invocation and runs the wrapped function, which is
  given by the outcome of each of its invocations within this call, counted from 0.
\<close>

definition executeWithTracking :: "(nat \<Rightarrow> 'a jsvalue outcome) \<Rightarrow> 'a task" where
  "executeWithTracking fn w = (fn (attemptCount w), w\<lparr>attemptCount := attemptCount w + 1\<rparr>)"

definition maxQueueOf :: "'a resilienceOptions \<Rightarrow> int" where
  "maxQueueOf options =
     (case bulkhead options of
        Some b \<Rightarrow> orElse (maxQueue b) BULKHEAD_DEFAULTS_maxQueue
      | None \<Rightarrow> BULKHEAD_DEFAULTS_maxQueue)"

definition attemptsOf :: "'a resilienceOptions \<Rightarrow> int" where
  "attemptsOf options =
     (case retry options of
        Some r \<Rightarrow> orElse (attempts r) RETRY_DEFAULTS_attempts
      | None \<Rightarrow> RETRY_DEFAULTS_attempts)"

definition notifySuccess :: "'a resilienceOptions \<Rightarrow> nat \<Rightarrow> thrown option" where
  "notifySuccess options n =
     (case metrics options of
        None \<Rightarrow> None
      | Some m \<Rightarrow> (case onSuccess m of None \<Rightarrow> None | Some callback \<Rightarrow> callback n))"

definition notifyFailure :: "'a resilienceOptions \<Rightarrow> nat \<Rightarrow> thrown \<Rightarrow> thrown option" where
  "notifyFailure options n e =
     (case metrics options of
        None \<Rightarrow> None
      | Some m \<Rightarrow> (case onFailure m of None \<Rightarrow> None | Some callback \<Rightarrow> callback n e))"

text \<open>
  The catch block of the function that withResilience returns: transform the error, call
  \<open>metrics?.onFailure\<close>, call \<open>logger?.error\<close> (which reads \<open>transformedError.message\<close>),
  throw the transformed error. An exception thrown on the way leaves the block instead.
\<close>

definition catchBlock :: "'a resilienceOptions \<Rightarrow> thrown \<Rightarrow> 'a task" where
  "catchBlock options error w1 =
     (let transformedError = transformCockatielError error
            \<lparr>cfgTimeout = Some (orElse (timeout options) TIMEOUT_DEFAULT),
             cfgMaxQueue = Some (maxQueueOf options),
             cfgAttempts = Some (attemptsOf options)\<rparr>;
          w2 = emit [OnFailure (attemptCount w1) transformedError] w1
      in case notifyFailure options (attemptCount w1) transformedError of
           Some thrownByCallback \<Rightarrow> (Reject thrownByCallback, w2)
         | None \<Rightarrow>
             (case logWithMessage (logger options) (LogError (attemptCount w1))
                     transformedError of
                Some thrownByLogger \<Rightarrow> (Reject thrownByLogger, w2)
              | None \<Rightarrow> (Reject transformedError, w2)))"

text \<open>
  The function that withResilience returns, for a given composed policy: one call of it.
  \<open>metrics?.onSuccess\<close> and \<open>logger?.info\<close> are called inside the try block, so what they
  throw is handled by the catch block.
\<close>

definition resilientCall ::
  "'a policy \<Rightarrow> (nat \<Rightarrow> 'a jsvalue outcome) \<Rightarrow> 'a resilienceOptions \<Rightarrow> 'a task" where
  "resilientCall composedPolicy fn options w =
     (case executeWithFallback (composedPolicy (executeWithTracking fn)) (fallback options)
             (logger options)
             (orElse (timeout options) TIMEOUT_DEFAULT, maxQueueOf options)
             (w\<lparr>attemptCount := 0\<rparr>) of
        (Resolve result, w1) \<Rightarrow>
          (case notifySuccess options (attemptCount w1) of
             Some thrownByCallback \<Rightarrow>
               catchBlock options thrownByCallback (emit [OnSuccess (attemptCount w1)] w1)
           | None \<Rightarrow>
               (case logInfo (logger options) (attemptCount w1) of
                  Some thrownByLogger \<Rightarrow>
                    catchBlock options thrownByLogger (emit [OnSuccess (attemptCount w1)] w1)
                | None \<Rightarrow> (Resolve result, emit [OnSuccess (attemptCount w1)] w1)))
      | (Reject error, w1) \<Rightarrow> catchBlock options error w1
      | (Pending, w1) \<Rightarrow> (Pending, w1))"

text \<open>The policies array built by withResilience: timeout, then bulkhead, then retry.\<close>

definition buildPolicies :: "'a resilienceOptions \<Rightarrow> 'a policy list" where
  "buildPolicies options =
     (case timeout options of
        Some t \<Rightarrow> [createTimeoutPolicy t]
      | None \<Rightarrow> []) @
     (case bulkhead options of
        Some b \<Rightarrow> [createBulkheadPolicy
                     (orElse (maxConcurrent b) BULKHEAD_DEFAULTS_maxConcurrent)
                     (orElse (maxQueue b) BULKHEAD_DEFAULTS_maxQueue)]
      | None \<Rightarrow> []) @
     (case retry options of
        Some r \<Rightarrow> [createRetryPolicy
                     (orElse (attempts r) RETRY_DEFAULTS_attempts)
                     (orElse (delay r) RETRY_DEFAULTS_delay)
                     (orElse (maxDelay r) RETRY_DEFAULTS_maxDelay)
                     (orElse (backoff r) RETRY_DEFAULTS_backoff)
                     (orElse (jitter r) RETRY_DEFAULTS_jitter)
                     (orElse (shouldRetry r) isRetryableError)]
      | None \<Rightarrow> [])"

definition withResilience ::
  "(nat \<Rightarrow> 'a jsvalue outcome) \<Rightarrow> 'a resilienceOptions \<Rightarrow> 'a task" where
  "withResilience fn options = resilientCall (composePolicies (buildPolicies options)) fn options"

text \<open>
  The two configurations handed to \<open>transformCockatielError\<close>: by withResilience in its
  catch block, and by executeWithFallback (which sets the attempts to 0).
\<close>

definition fullConfig :: "'a resilienceOptions \<Rightarrow> errorConfig" where
  "fullConfig options =
     \<lparr>cfgTimeout = Some (orElse (timeout options) TIMEOUT_DEFAULT),
      cfgMaxQueue = Some (maxQueueOf options),
      cfgAttempts = Some (attemptsOf options)\<rparr>"

definition fallbackConfig :: "'a resilienceOptions \<Rightarrow> errorConfig" where
  "fallbackConfig options =
     \<lparr>cfgTimeout = Some (orElse (timeout options) TIMEOUT_DEFAULT),
      cfgMaxQueue = Some (maxQueueOf options),
      cfgAttempts = Some 0\<rparr>"

section \<open>Scenarios\<close>

text \<open>
  Concrete inputs, most of them taken from the test files: a world with nothing in
  flight, an options object that configures nothing, a function that rejects with the
  same error on every call (\<open>mockRejectedValue\<close>), and a few options and errors.
\<close>

definition idleWorld :: world where
  "idleWorld = \<lparr>attemptCount = 0, inFlight = 0, queued = 0, jitterDraw = (\<lambda>k. 0), trace = []\<rparr>"

definition noOptions :: "'a resilienceOptions" where
  "noOptions = \<lparr>retry = None, bulkhead = None, timeout = None, fallback = Undefined,
                 logger = None, metrics = None\<rparr>"

definition alwaysRejects :: "thrown \<Rightarrow> nat \<Rightarrow> 'a jsvalue outcome" where
  "alwaysRejects e k = Reject e"

definition retryTwice :: retryOptions where
  "retryTwice = \<lparr>attempts = Some 2, delay = Some 10, maxDelay = None, backoff = None,
                  jitter = Some False, shouldRetry = None\<rparr>"


definition rateLimited :: thrown where
  "rateLimited = plainError ''Rate limited, retry after 30s''"

definition resetWith404 :: thrown where
  "resetWith404 =
     JsError \<lparr>message = ''socket hang up'', status = Num 404, statusCode = Absent,
              response = NoResponse, code = Str ''ECONNRESET''\<rparr>"

definition retryFive :: retryOptions where
  "retryFive = \<lparr>attempts = Some 5, delay = Some 50, maxDelay = Some 100,
                 backoff = Some Exponential, jitter = Some False, shouldRetry = None\<rparr>"

definition oneSlotNoQueue :: bulkheadOptions where
  "oneSlotNoQueue = \<lparr>maxConcurrent = Some 1, maxQueue = Some 0\<rparr>"


text \<open>
  The errors that \<open>transformCockatielError\<close> hands back as they are: neither of the two
  cockatiel errors, and not an \<open>Error\<close> whose message contains \<open>retry\<close>.
\<close>

definition passesUnchanged :: "thrown \<Rightarrow> bool" where
  "passesUnchanged x =
     (\<not> isCockatielError x \<and> \<not> (instanceofError x \<and> includesStr (messageOf x) ''retry''))"


definition quietMetrics :: resilienceMetrics where
  "quietMetrics = \<lparr>onSuccess = Some (\<lambda>n. None), onFailure = Some (\<lambda>n e. None)\<rparr>"


section \<open>Facts about strings\<close>

lemma includesStr_sublist: "includesStr s pat \<longleftrightarrow> sublist pat s"
  by (induction s) (auto simp: sublist_Cons_right)

lemma sublist_separator:
  assumes "c \<notin> set pat"
  shows "sublist pat (xs @ c # ys) \<longleftrightarrow> sublist pat xs \<or> sublist pat ys"
proof
  assume "sublist pat (xs @ c # ys)"
  then consider "sublist pat xs" | "sublist pat (c # ys)"
    | xs1 xs2 where "pat = xs1 @ xs2" "suffix xs1 xs" "prefix xs2 (c # ys)"
    unfolding sublist_append by blast
  then show "sublist pat xs \<or> sublist pat ys"
  proof cases
    case 1
    then show ?thesis by simp
  next
    case 2
    then have "prefix pat (c # ys) \<or> sublist pat ys" by (simp add: sublist_Cons_right)
    moreover have "pat = []" if "prefix pat (c # ys)"
      using that assms by (cases pat) auto
    ultimately show ?thesis by auto
  next
    case 3
    have "xs2 = []" using 3(1,3) assms by (cases xs2) auto
    with 3 have "suffix pat xs" by simp
    then show ?thesis by (simp add: suffix_imp_sublist)
  qed
next
  assume "sublist pat xs \<or> sublist pat ys"
  then show "sublist pat (xs @ c # ys)"
  proof
    assume "sublist pat xs"
    then show ?thesis by (simp add: sublist_append)
  next
    assume "sublist pat ys"
    then have "sublist pat (c # ys)" by (simp add: sublist_Cons_right)
    then show ?thesis by (simp add: sublist_append)
  qed
qed

lemma sublist_separator_run:
  assumes "set ds \<inter> set pat = {}" and "ds \<noteq> []"
  shows "sublist pat (xs @ ds @ ys) \<longleftrightarrow> sublist pat xs \<or> sublist pat ys"
  using assms
proof (induction ds arbitrary: xs)
  case Nil
  then show ?case by simp
next
  case (Cons d ds)
  show ?case
  proof (cases "ds = []")
    case True
    with Cons.prems show ?thesis by (simp add: sublist_separator)
  next
    case False
    have "sublist pat (xs @ (d # ds) @ ys) \<longleftrightarrow> sublist pat xs \<or> sublist pat (ds @ ys)"
      using Cons.prems by (simp add: sublist_separator)
    also have "sublist pat (ds @ ys) \<longleftrightarrow> sublist pat [] \<or> sublist pat ys"
      using Cons.IH [of "[]"] Cons.prems False by simp
    finally show ?thesis by auto
  qed
qed

lemma digitChar_in: "d < 10 \<Longrightarrow> digitChar d \<in> set ''0123456789''"
  unfolding digitChar_def by (rule nth_mem) simp

lemma digits_chars: "set (digits n) \<subseteq> set ''0123456789''"
proof (induction n rule: digits.induct)
  case (1 n)
  show ?case
  proof (cases "n < 10")
    case True
    then show ?thesis using digitChar_in [of n] by (subst digits.simps) simp
  next
    case False
    have "n mod 10 < 10" by simp
    then have "digitChar (n mod 10) \<in> set ''0123456789''" by (rule digitChar_in)
    with False "1.IH" show ?thesis by (subst digits.simps) simp
  qed
qed

lemma digits_nonempty: "digits n \<noteq> []"
  by (subst digits.simps) simp

lemma digits_no_retry: "set (digits n) \<inter> set ''retry'' = {}"
proof -
  have d: "set ''0123456789'' \<inter> set ''retry'' = {}" by simp
  have s: "A \<subseteq> B \<Longrightarrow> B \<inter> C = {} \<Longrightarrow> A \<inter> C = {}" for A B C :: "char set" by blast
  show ?thesis by (rule s [OF digits_chars d])
qed

lemma showNumber_disjoint:
  assumes m: "CHR ''-'' \<notin> P" and d: "\<And>n. set (digits n) \<inter> P = {}"
  shows "set (showNumber i) \<inter> P = {}"
proof (cases "i < 0")
  case True
  have "showNumber i = CHR ''-'' # digits (nat (- i))"
    using True by (simp only: showNumber_def if_True)
  then have "set (showNumber i) = insert CHR ''-'' (set (digits (nat (- i))))"
    by (simp only: list.set)
  then show ?thesis by (simp only: Int_insert_left_if0 [OF m] d)
next
  case False
  then have "showNumber i = digits (nat i)" by (simp only: showNumber_def if_False)
  then show ?thesis by (simp only: d)
qed

lemma showNumber_no_retry: "set (showNumber i) \<inter> set ''retry'' = {}"
proof (rule showNumber_disjoint)
  show "CHR ''-'' \<notin> set ''retry''" by simp
  show "set (digits n) \<inter> set ''retry'' = {}" for n by (rule digits_no_retry)
qed

lemma showNumber_nonempty: "showNumber i \<noteq> []"
  unfolding showNumber_def by (simp add: digits_nonempty)

lemma sublist_around_number:
  "sublist ''retry'' (xs @ showNumber i @ ys) \<longleftrightarrow> sublist ''retry'' xs \<or> sublist ''retry'' ys"
  by (rule sublist_separator_run [OF showNumber_no_retry showNumber_nonempty])

section \<open>The messages of the error classes\<close>

lemma retry_in_TimeoutError: "\<not> includesStr (messageOf (TimeoutError d)) ''retry''"
proof -
  have a: "\<not> sublist ''retry'' ''Operation timed out after ''"
    unfolding includesStr_sublist [symmetric] by simp
  have b: "\<not> sublist ''retry'' ''ms''"
    unfolding includesStr_sublist [symmetric] by simp
  show ?thesis
    unfolding includesStr_sublist messageOf.simps sublist_around_number using a b by blast
qed

lemma retry_in_BulkheadRejectedError:
  "\<not> includesStr (messageOf (BulkheadRejectedError q m)) ''retry''"
proof -
  have a: "\<not> sublist ''retry'' ''Bulkhead queue full: ''"
    unfolding includesStr_sublist [symmetric] by simp
  have b: "\<not> sublist ''retry'' ''/''"
    unfolding includesStr_sublist [symmetric] by simp
  have c: "\<not> sublist ''retry'' '' requests queued''"
    unfolding includesStr_sublist [symmetric] by simp
  show ?thesis
    unfolding includesStr_sublist messageOf.simps sublist_around_number using a b c by blast
qed

lemma retry_in_RetryExhaustedError:
  "includesStr (messageOf (RetryExhaustedError n e)) ''retry'' =
   includesStr (messageOf e) ''retry''"
proof -
  have a: "\<not> sublist ''retry'' ''Retry exhausted after ''"
    unfolding includesStr_sublist [symmetric] by simp
  have b: "\<not> sublist ''retry'' '' attempts:''"
    unfolding includesStr_sublist [symmetric] by simp
  have sp: "CHR '' '' \<notin> set ''retry''" by simp
  have split: "'' attempts: '' @ messageOf e = '' attempts:'' @ CHR '' '' # messageOf e"
    by simp
  have "sublist ''retry'' ('' attempts: '' @ messageOf e) = sublist ''retry'' (messageOf e)"
    unfolding split sublist_separator [OF sp] using b by blast
  then show ?thesis
    unfolding includesStr_sublist messageOf.simps sublist_around_number using a by blast
qed

section \<open>Facts about the error transformation\<close>

lemma transform_typed:
  "isTypedFailure x \<Longrightarrow> \<not> includesStr (messageOf x) ''retry'' \<Longrightarrow>
   transformCockatielError x c = x"
  by (cases x) simp_all

lemma transform_plain:
  "\<not> isCockatielError x \<Longrightarrow> \<not> (instanceofError x \<and> includesStr (messageOf x) ''retry'') \<Longrightarrow>
   transformCockatielError x c = x"
  by (cases x) auto


lemma transform_result:
  "isTypedFailure (transformCockatielError x c) \<or>
   (transformCockatielError x c = x \<and> \<not> isCockatielError x \<and>
    \<not> (instanceofError x \<and> includesStr (messageOf x) ''retry''))"
  by (cases x) auto

lemma transform_twice:
  "transformCockatielError (transformCockatielError x c0) c1 =
     (if isCockatielError x then transformCockatielError x c0
      else if instanceofError x \<and> includesStr (messageOf x) ''retry''
      then RetryExhaustedError (orElse (cfgAttempts c1) 0)
             (RetryExhaustedError (orElse (cfgAttempts c0) 0) x)
      else x)"
  by (cases x)
     (auto simp: retry_in_TimeoutError retry_in_BulkheadRejectedError
                 retry_in_RetryExhaustedError simp del: messageOf.simps)

section \<open>One call of the wrapped function\<close>

lemma transform_passes: "passesUnchanged x \<Longrightarrow> transformCockatielError x c = x"
  by (simp add: passesUnchanged_def transform_plain)

lemma transform_typed_or_passes:
  "isTypedFailure (transformCockatielError x c) \<or>
   (transformCockatielError x c = x \<and> passesUnchanged x)"
  using transform_result [of x c] by (simp add: passesUnchanged_def)

lemma transform_twice_typed_or_passes:
  "isTypedFailure (transformCockatielError (transformCockatielError x c0) c1) \<or>
   (transformCockatielError (transformCockatielError x c0) c1 = x \<and> passesUnchanged x)"
  unfolding transform_twice passesUnchanged_def by (cases x) auto

lemma typeError_null: "passesUnchanged (messageTypeError ThrownNull)"
  unfolding passesUnchanged_def by code_simp

lemma typeError_undefined: "passesUnchanged (messageTypeError ThrownUndefined)"
  unfolding passesUnchanged_def by code_simp

lemma typeError_kinds:
  "isNullish u \<Longrightarrow>
   messageTypeError u = messageTypeError ThrownUndefined \<or>
   messageTypeError u = messageTypeError ThrownNull"
  by (cases u) simp_all

lemma typeError_passes: "isNullish u \<Longrightarrow> passesUnchanged (messageTypeError u)"
  using typeError_kinds [of u] typeError_null typeError_undefined by auto

lemma logWithMessage_throws:
  assumes "logWithMessage lg call u = Some x"
  shows "(\<exists>l c. lg = Some l \<and> l c = Some x) \<or>
         (lg \<noteq> None \<and>
          (x = messageTypeError ThrownUndefined \<or> x = messageTypeError ThrownNull))"
proof (cases lg)
  case None
  with assms show ?thesis by (simp add: logWithMessage_def)
next
  case (Some l)
  show ?thesis
  proof (cases "isNullish u")
    case True
    with Some assms typeError_kinds [of u] show ?thesis
      by (auto simp: logWithMessage_def)
  next
    case False
    with Some assms show ?thesis by (auto simp: logWithMessage_def)
  qed
qed

lemma logInfo_throws:
  "logInfo lg n = Some x \<Longrightarrow> \<exists>l c. lg = Some l \<and> l c = Some x"
  by (auto simp: logInfo_def split: option.splits)

lemma catchBlock_rejects:
  "\<exists>x. fst (catchBlock options e w1) = Reject x \<and>
       snd (catchBlock options e w1) =
         emit [OnFailure (attemptCount w1) (transformCockatielError e (fullConfig options))] w1 \<and>
       (x = transformCockatielError e (fullConfig options) \<or>
        (\<exists>n y. notifyFailure options n y = Some x) \<or>
        (\<exists>call u. logWithMessage (logger options) call u = Some x))"
  by (auto simp: catchBlock_def fullConfig_def Let_def split: option.splits)

lemma catchBlock_plain:
  assumes "notifyFailure options (attemptCount w1) (transformCockatielError e (fullConfig options)) = None"
    and "logWithMessage (logger options) (LogError (attemptCount w1))
           (transformCockatielError e (fullConfig options)) = None"
  shows "catchBlock options e w1 =
           (Reject (transformCockatielError e (fullConfig options)),
            emit [OnFailure (attemptCount w1) (transformCockatielError e (fullConfig options))] w1)"
  using assms by (auto simp: catchBlock_def fullConfig_def Let_def)

lemma fallback_rejects:
  assumes "executeWithFallback execute fb lg (t, q) v = (Reject y, w1)"
  shows "(\<exists>e. fst (execute v) = Reject e \<and> isUndefined fb \<and>
              y = transformCockatielError e
                    \<lparr>cfgTimeout = Some t, cfgMaxQueue = Some q, cfgAttempts = Some 0\<rparr>) \<or>
         (\<exists>call u. logWithMessage lg call u = Some y) \<or>
         (\<exists>f e. fb = Function f \<and> f e = Reject y)"
proof -
  obtain r w0 where ex: "execute v = (r, w0)" by (cases "execute v")
  show ?thesis
  proof (cases r)
    case (Resolve a)
    with ex assms show ?thesis by (simp add: executeWithFallback_def)
  next
    case Pending
    with ex assms show ?thesis by (simp add: executeWithFallback_def)
  next
    case (Reject e)
    with ex assms show ?thesis
      by (cases fb) (auto simp: executeWithFallback_def Let_def split: if_splits option.splits)
  qed
qed

lemma http500_retryable: "isRetryableError (createHttpError 500)"
  by code_simp

lemma http500_message: "\<not> includesStr (messageOf (createHttpError 500)) ''retry''"
  by code_simp

lemmas wrapper_defs =
  withResilience_def buildPolicies_def composePolicies_def wrap_def resilientCall_def
  catchBlock_def notifySuccess_def notifyFailure_def logWithMessage_def logInfo_def
  executeWithFallback_def executeWithTracking_def maxQueueOf_def attemptsOf_def emit_def
  createRetryPolicy_def createBulkheadPolicy_def createTimeoutPolicy_def retriesGranted_def
  backoffGenerator_def computedDelay_def release_def
  RETRY_DEFAULTS_attempts_def RETRY_DEFAULTS_delay_def RETRY_DEFAULTS_maxDelay_def
  RETRY_DEFAULTS_backoff_def RETRY_DEFAULTS_jitter_def BULKHEAD_DEFAULTS_maxConcurrent_def
  BULKHEAD_DEFAULTS_maxQueue_def TIMEOUT_DEFAULT_def

lemmas scenario_defs = idleWorld_def noOptions_def alwaysRejects_def retryTwice_def

lemma fail_message: "\<not> includesStr (messageOf (plainError ''Fail'')) ''retry''"
  by code_simp

lemma resilientCall_unfold:
  "resilientCall P fn options w =
     (case executeWithFallback (P (executeWithTracking fn)) (fallback options) (logger options)
             (orElse (timeout options) TIMEOUT_DEFAULT, maxQueueOf options)
             (w\<lparr>attemptCount := 0\<rparr>) of
        (Resolve result, w1) \<Rightarrow>
          (case notifySuccess options (attemptCount w1) of
             Some y \<Rightarrow> catchBlock options y (emit [OnSuccess (attemptCount w1)] w1)
           | None \<Rightarrow>
               (case logInfo (logger options) (attemptCount w1) of
                  Some y \<Rightarrow> catchBlock options y (emit [OnSuccess (attemptCount w1)] w1)
                | None \<Rightarrow> (Resolve result, emit [OnSuccess (attemptCount w1)] w1)))
      | (Reject error, w1) \<Rightarrow> catchBlock options error w1
      | (Pending, w1) \<Rightarrow> (Pending, w1))"
  by (simp add: resilientCall_def)

section \<open>Facts about the policies\<close>

lemma retryLoop_non_retryable:
  assumes "fn (attemptCount w) = Reject e" and "\<not> classify e"
  shows "retryLoop classify delayOf m left k (executeWithTracking fn) w =
           (Reject e, w\<lparr>attemptCount := attemptCount w + 1\<rparr>)"
  using assms by (cases left) (simp_all add: executeWithTracking_def)

lemma bulkhead_admits_reject:
  assumes "int (inFlight w) < mc"
    and "inner (w\<lparr>inFlight := inFlight w + 1\<rparr>) = (Reject e, w1)"
  shows "createBulkheadPolicy mc mq inner w = (Reject e, release w1)"
  using assms by (simp add: createBulkheadPolicy_def)

lemma bulkhead_full:
  assumes "\<not> int (inFlight w) < mc" and "\<not> int (queued w) < mq"
  shows "createBulkheadPolicy mc mq inner w =
           (Reject (CockatielBulkheadRejectedError ''Bulkhead capacity exceeded''),
            emit [OnBulkheadRejected mq mq] w)"
  using assms by (simp add: createBulkheadPolicy_def)

lemma attemptCount_release: "attemptCount (release w) = attemptCount w"
  by (simp add: release_def)

lemma attemptCount_catchBlock: "attemptCount (snd (catchBlock options e v)) = attemptCount v"
  by (simp add: catchBlock_def Let_def emit_def split: option.splits)

lemma call_attemptCount:
  assumes "P (executeWithTracking fn) (w\<lparr>attemptCount := 0\<rparr>) = (r, w1)"
  shows "attemptCount (snd (resilientCall P fn options w)) = attemptCount w1"
proof -
  let ?E = "executeWithFallback (P (executeWithTracking fn)) (fallback options) (logger options)
              (orElse (timeout options) TIMEOUT_DEFAULT, maxQueueOf options)
              (w\<lparr>attemptCount := 0\<rparr>)"
  have E: "attemptCount (snd ?E) = attemptCount w1"
    using assms
    by (cases r; cases "fallback options")
       (simp_all add: executeWithFallback_def Let_def emit_def split: option.splits)
  obtain r2 w2 where e: "?E = (r2, w2)" by (cases ?E)
  with E have w2: "attemptCount w2 = attemptCount w1" by simp
  show ?thesis
    unfolding resilientCall_unfold e
    using w2
    by (cases r2; cases "notifySuccess options (attemptCount w2)";
        cases "logInfo (logger options) (attemptCount w2)")
       (simp_all add: attemptCount_catchBlock emit_def)
qed

lemma call_rejects_no_fallback:
  assumes "P (executeWithTracking fn) (w\<lparr>attemptCount := 0\<rparr>) = (Reject e, w1)"
    and "fallback options = Undefined"
    and "notifyFailure options (attemptCount w1)
           (transformCockatielError (transformCockatielError e (fallbackConfig options))
              (fullConfig options)) = None"
    and "logWithMessage (logger options) (LogError (attemptCount w1))
           (transformCockatielError (transformCockatielError e (fallbackConfig options))
              (fullConfig options)) = None"
  shows "resilientCall P fn options w =
           (Reject (transformCockatielError (transformCockatielError e (fallbackConfig options))
                      (fullConfig options)),
            emit [OnFailure (attemptCount w1)
                    (transformCockatielError (transformCockatielError e (fallbackConfig options))
                      (fullConfig options))] w1)"
proof -
  have "executeWithFallback (P (executeWithTracking fn)) (fallback options) (logger options)
          (orElse (timeout options) TIMEOUT_DEFAULT, maxQueueOf options)
          (w\<lparr>attemptCount := 0\<rparr>) =
        (Reject (transformCockatielError e (fallbackConfig options)), w1)"
    using assms(1,2) by (simp add: executeWithFallback_def fallbackConfig_def)
  then show ?thesis
    unfolding resilientCall_unfold using catchBlock_plain [OF assms(3,4)] by simp
qed

lemma pipeline_non_retryable:
  assumes r: "retry options = Some r"
    and f: "fn 0 = Reject e"
    and c: "\<not> orElse (shouldRetry r) isRetryableError e"
    and b: "case bulkhead options of
              None \<Rightarrow> True
            | Some b \<Rightarrow> int (inFlight w) < orElse (maxConcurrent b) BULKHEAD_DEFAULTS_maxConcurrent"
  shows "\<exists>w1. composePolicies (buildPolicies options) (executeWithTracking fn)
                 (w\<lparr>attemptCount := 0\<rparr>) = (Reject e, w1) \<and> attemptCount w1 = 1"
proof -
  let ?R = "createRetryPolicy
              (orElse (attempts r) RETRY_DEFAULTS_attempts)
              (orElse (delay r) RETRY_DEFAULTS_delay)
              (orElse (maxDelay r) RETRY_DEFAULTS_maxDelay)
              (orElse (backoff r) RETRY_DEFAULTS_backoff)
              (orElse (jitter r) RETRY_DEFAULTS_jitter)
              (orElse (shouldRetry r) isRetryableError) :: 'a policy"
  have R: "?R (executeWithTracking fn) v = (Reject e, v\<lparr>attemptCount := 1\<rparr>)"
    if "attemptCount v = 0" for v
    unfolding createRetryPolicy_def
    using retryLoop_non_retryable [of fn v e "orElse (shouldRetry r) isRetryableError"] c f that
    by simp
  show ?thesis
  proof (cases "bulkhead options")
    case None
    show ?thesis
    proof (cases "timeout options")
      case None
      with \<open>bulkhead options = None\<close> r R [of "w\<lparr>attemptCount := 0\<rparr>"] show ?thesis
        by (simp add: buildPolicies_def composePolicies_def)
    next
      case (Some t)
      with \<open>bulkhead options = None\<close> r R [of "w\<lparr>attemptCount := 0\<rparr>"] show ?thesis
        by (simp add: buildPolicies_def composePolicies_def wrap_def createTimeoutPolicy_def)
    qed
  next
    case (Some bo)
    let ?mc = "orElse (maxConcurrent bo) BULKHEAD_DEFAULTS_maxConcurrent"
    let ?mq = "orElse (maxQueue bo) BULKHEAD_DEFAULTS_maxQueue"
    let ?v = "w\<lparr>attemptCount := 0\<rparr>"
    have adm: "int (inFlight ?v) < ?mc" using b Some by simp
    have B: "createBulkheadPolicy ?mc ?mq (?R (executeWithTracking fn)) ?v =
               (Reject e, release (?v\<lparr>inFlight := inFlight ?v + 1, attemptCount := 1\<rparr>))"
      using bulkhead_admits_reject [OF adm, of "?R (executeWithTracking fn)" e _ ?mq]
            R [of "?v\<lparr>inFlight := inFlight ?v + 1\<rparr>"]
      by simp
    show ?thesis
    proof (cases "timeout options")
      case None
      with Some r B show ?thesis
        by (simp add: buildPolicies_def composePolicies_def wrap_def attemptCount_release)
    next
      case (Some t)
      with \<open>bulkhead options = Some bo\<close> r B show ?thesis
        by (simp add: buildPolicies_def composePolicies_def wrap_def attemptCount_release
                      createTimeoutPolicy_def)
    qed
  qed
qed

lemma pipeline_bulkhead_full:
  assumes b: "bulkhead options = Some b"
    and full: "\<not> int (inFlight w) < orElse (maxConcurrent b) BULKHEAD_DEFAULTS_maxConcurrent"
              "\<not> int (queued w) < orElse (maxQueue b) BULKHEAD_DEFAULTS_maxQueue"
  shows "composePolicies (buildPolicies options) operation w =
           (Reject (CockatielBulkheadRejectedError ''Bulkhead capacity exceeded''),
            emit [OnBulkheadRejected (maxQueueOf options) (maxQueueOf options)] w)"
proof -
  have mq: "maxQueueOf options = orElse (maxQueue b) BULKHEAD_DEFAULTS_maxQueue"
    using b by (simp add: maxQueueOf_def)
  show ?thesis
    using b unfolding mq
    by (cases "timeout options"; cases "retry options")
       (simp_all add: buildPolicies_def composePolicies_def wrap_def createTimeoutPolicy_def
                      bulkhead_full [OF full])
qed


section \<open>The errors a caller can see\<close>

text \<open>
  Claim C1 as stated fails. With no policy and no fallback configured, an operation that
  rejects with \<open>new Error('Fail')\<close> makes the wrapped call reject with that very error,
  which is not an instance of \<open>ResilienceError\<close>: the raw error is surfaced unwrapped.
\<close>

theorem C1_raw_error_counterexample:
  "fst (withResilience (alwaysRejects (plainError ''Fail'')) (noOptions :: nat resilienceOptions)
          idleWorld) = Reject (plainError ''Fail'') \<and>
   \<not> instanceofResilienceError (plainError ''Fail'')"
  using fail_message
  by (simp add: wrapper_defs scenario_defs plainError_def Let_def)

text \<open>
  Claim C1, amended. Whenever a call of the wrapped function fails, the error handed to
  the caller is one of these: a \<open>RetryExhaustedError\<close>, a \<open>TimeoutError\<close> or a
  \<open>BulkheadRejectedError\<close>; or the very error that the composed pipeline raised, that the
  fallback function raised or that the \<open>onSuccess\<close> callback threw, handed on unchanged,
  which is then neither one of the two cockatiel errors nor an \<open>Error\<close> whose message
  contains \<open>retry\<close>; or whatever the \<open>onFailure\<close> callback or a method of the logger
  threw; or, with a logger configured, the \<open>TypeError\<close> of reading the message of
  \<open>undefined\<close> or \<open>null\<close>. No generic \<open>ResilienceError\<close> is built around an unclassified
  error. This holds for every composed policy.
\<close>

theorem C1_failure_typed_or_unchanged:
  assumes "resilientCall P fn options w = (Reject x, w')"
  shows "isTypedFailure x \<or>
         (passesUnchanged x \<and>
          (fst (P (executeWithTracking fn) (w\<lparr>attemptCount := 0\<rparr>)) = Reject x \<or>
           (\<exists>f e. fallback options = Function f \<and> f e = Reject x) \<or>
           (\<exists>n. notifySuccess options n = Some x))) \<or>
         (\<exists>n e. notifyFailure options n e = Some x) \<or>
         (\<exists>l c. logger options = Some l \<and> l c = Some x) \<or>
         (logger options \<noteq> None \<and>
          (x = messageTypeError ThrownUndefined \<or> x = messageTypeError ThrownNull))"
proof -
  let ?E = "executeWithFallback (P (executeWithTracking fn)) (fallback options) (logger options)
              (orElse (timeout options) TIMEOUT_DEFAULT, maxQueueOf options)
              (w\<lparr>attemptCount := 0\<rparr>)"
  let ?T = "\<lambda>y. transformCockatielError y (fullConfig options)"
  let ?S = "\<lambda>y. fst (P (executeWithTracking fn) (w\<lparr>attemptCount := 0\<rparr>)) = Reject y \<or>
                (\<exists>f e. fallback options = Function f \<and> f e = Reject y) \<or>
                (\<exists>n. notifySuccess options n = Some y)"
  let ?L = "\<lambda>y. (\<exists>l c. logger options = Some l \<and> l c = Some y) \<or>
                (logger options \<noteq> None \<and>
                 (y = messageTypeError ThrownUndefined \<or> y = messageTypeError ThrownNull))"
  obtain r w1 where E: "?E = (r, w1)" by (cases ?E)
  have logged: "?L z" if "logWithMessage (logger options) call u = Some z" for z call u
    by (rule logWithMessage_throws [OF that])
  have logged_passes: "isTypedFailure (?T z) \<or> ?L (?T z)" if "?L z" for z
    using that transform_typed_or_passes [of z "fullConfig options"] by metis
  have caught: ?thesis
    if c: "fst (catchBlock options y v) = Reject x"
      and y: "isTypedFailure (?T y) \<or> (?T y = y \<and> passesUnchanged y \<and> ?S y) \<or> ?L (?T y)"
    for y v
  proof -
    from catchBlock_rejects [of options y v] c
    consider "x = ?T y" | "\<exists>n e. notifyFailure options n e = Some x"
      | call u where "logWithMessage (logger options) call u = Some x"
      by auto
    then show ?thesis
    proof cases
      case 1
      from y consider (t) "isTypedFailure (?T y)"
        | (p) "?T y = y" "passesUnchanged y" "?S y"
        | (l) "?L (?T y)"
        by blast
      then show ?thesis
      proof cases
        case t
        with 1 show ?thesis by simp
      next
        case p
        with 1 show ?thesis by simp
      next
        case l
        with 1 show ?thesis by simp
      qed
    next
      case 2
      then show ?thesis by blast
    next
      case 3
      from logged [OF 3] show ?thesis by simp
    qed
  qed
  show ?thesis
  proof (cases r)
    case Pending
    with E assms show ?thesis by (simp add: resilientCall_unfold)
  next
    case (Resolve a)
    let ?v = "emit [OnSuccess (attemptCount w1)] w1"
    from E Resolve assms
    obtain y where c: "catchBlock options y ?v = (Reject x, w')"
      and n: "notifySuccess options (attemptCount w1) = Some y \<or>
              logInfo (logger options) (attemptCount w1) = Some y"
      by (cases "notifySuccess options (attemptCount w1)";
          cases "logInfo (logger options) (attemptCount w1)")
         (simp_all add: resilientCall_unfold)
    show ?thesis
    proof (rule caught [of y ?v])
      show "fst (catchBlock options y ?v) = Reject x"
        using c by simp
      from n show "isTypedFailure (?T y) \<or> (?T y = y \<and> passesUnchanged y \<and> ?S y) \<or> ?L (?T y)"
      proof
        assume "notifySuccess options (attemptCount w1) = Some y"
        then show ?thesis
          using transform_typed_or_passes [of y "fullConfig options"] by blast
      next
        assume "logInfo (logger options) (attemptCount w1) = Some y"
        from logInfo_throws [OF this] have "?L y" by blast
        from logged_passes [OF this] show ?thesis by blast
      qed
    qed
  next
    case (Reject y)
    with E assms have c: "catchBlock options y w1 = (Reject x, w')"
      by (simp add: resilientCall_unfold)
    from fallback_rejects [OF E [unfolded Reject]]
    consider (pipeline) e where
        "fst (P (executeWithTracking fn) (w\<lparr>attemptCount := 0\<rparr>)) = Reject e"
        "y = transformCockatielError e
               \<lparr>cfgTimeout = Some (orElse (timeout options) TIMEOUT_DEFAULT),
                cfgMaxQueue = Some (maxQueueOf options), cfgAttempts = Some 0\<rparr>"
      | (warned) call u where "logWithMessage (logger options) call u = Some y"
      | (fallen) f e where "fallback options = Function f" "f e = Reject y"
      by blast
    then have "isTypedFailure (?T y) \<or> (?T y = y \<and> passesUnchanged y \<and> ?S y) \<or> ?L (?T y)"
    proof cases
      case pipeline
      show ?thesis
        using transform_twice_typed_or_passes [of e "fallbackConfig options" "fullConfig options"]
              transform_passes [of e "fallbackConfig options"] pipeline(1)
        unfolding pipeline(2) fallbackConfig_def by auto
    next
      case warned
      from logged_passes [OF logged [OF warned]] show ?thesis by blast
    next
      case fallen
      then show ?thesis using transform_typed_or_passes [of y "fullConfig options"] by blast
    qed
    with c show ?thesis by (intro caught [of y w1]) simp_all
  qed
qed

text \<open>
  The amended C1 for an operation that rejects with \<open>new Error('Fail')\<close> and a wrapper
  without any configuration: the error is the one that the pipeline raised.
\<close>

theorem C1_failure_typed_or_unchanged_witness:
  "resilientCall (composePolicies []) (alwaysRejects (plainError ''Fail''))
     (noOptions :: nat resilienceOptions) idleWorld =
     (Reject (plainError ''Fail''),
      idleWorld\<lparr>attemptCount := 1, trace := [OnFailure 1 (plainError ''Fail'')]\<rparr>) \<and>
   \<not> isTypedFailure (plainError ''Fail'') \<and>
   \<not> isCockatielError (plainError ''Fail'') \<and>
   fst (composePolicies [] (executeWithTracking (alwaysRejects (plainError ''Fail'')))
         (idleWorld\<lparr>attemptCount := 0\<rparr>)) = (Reject (plainError ''Fail'') :: nat jsvalue outcome)"
proof -
  have h: "resilientCall (composePolicies []) (alwaysRejects (plainError ''Fail''))
     (noOptions :: nat resilienceOptions) idleWorld =
     (Reject (plainError ''Fail''),
      idleWorld\<lparr>attemptCount := 1, trace := [OnFailure 1 (plainError ''Fail'')]\<rparr>)"
    using fail_message
    by (simp add: wrapper_defs scenario_defs plainError_def Let_def)
  show ?thesis
    using h C1_failure_typed_or_unchanged
              [where P = "composePolicies []" and fn = "alwaysRejects (plainError ''Fail'')"
                 and options = "noOptions :: nat resilienceOptions" and w = idleWorld
                 and x = "plainError ''Fail''"
                 and w' = "idleWorld\<lparr>attemptCount := 1,
                                       trace := [OnFailure 1 (plainError ''Fail'')]\<rparr>"]
    by (simp add: wrapper_defs scenario_defs plainError_def)
qed

section \<open>Retry exhaustion\<close>

text \<open>
  An operation that always rejects with a retryable error uses up every retry that the
  loop grants; with only a retry policy configured and an error whose message does not
  contain \<open>retry\<close>, the caller then gets the operation's own error.
\<close>

lemma retryLoop_always_rejects:
  assumes "\<And>i. fn i = Reject e" and "classify e"
  shows "fst (retryLoop classify delayOf m left k (executeWithTracking fn) w) = Reject e \<and>
         attemptCount (snd (retryLoop classify delayOf m left k (executeWithTracking fn) w)) =
           attemptCount w + left + 1"
proof (induction left arbitrary: k w)
  case 0
  show ?case using assms(1) by (simp add: executeWithTracking_def)
next
  case (Suc left)
  let ?w1 = "w\<lparr>attemptCount := attemptCount w + 1\<rparr>"
  let ?w2 = "emit [OnRetry k m e (delayOf k ?w1)] ?w1"
  have step: "retryLoop classify delayOf m (Suc left) k (executeWithTracking fn) w =
                retryLoop classify delayOf m left (Suc k) (executeWithTracking fn) ?w2"
    using assms by (simp add: executeWithTracking_def)
  have "attemptCount ?w2 = attemptCount w + 1" by (simp add: emit_def)
  with Suc.IH [of "Suc k" ?w2] show ?case unfolding step by simp
qed

lemma retry_exhaustion_rethrows_last_error:
  assumes "retry options = Some r" and "bulkhead options = None" and "timeout options = None"
    and "fallback options = Undefined"
    and "\<And>i. fn i = Reject e"
    and "orElse (shouldRetry r) isRetryableError e"
    and "\<not> isCockatielError e"
    and "\<not> (instanceofError e \<and> includesStr (messageOf e) ''retry'')"
    and "\<And>n. notifyFailure options n e = None"
    and "\<And>n. logWithMessage (logger options) (LogError n) e = None"
  shows "fst (withResilience fn options w) = Reject e \<and>
         attemptCount (snd (withResilience fn options w)) =
           retriesGranted (orElse (attempts r) RETRY_DEFAULTS_attempts) + 1"
proof -
  let ?P = "composePolicies (buildPolicies options) :: 'a policy"
  let ?v = "w\<lparr>attemptCount := 0\<rparr>"
  obtain x w1 where p: "?P (executeWithTracking fn) ?v = (x, w1)"
    by (cases "?P (executeWithTracking fn) ?v")
  have P: "?P = createRetryPolicy
              (orElse (attempts r) RETRY_DEFAULTS_attempts)
              (orElse (delay r) RETRY_DEFAULTS_delay)
              (orElse (maxDelay r) RETRY_DEFAULTS_maxDelay)
              (orElse (backoff r) RETRY_DEFAULTS_backoff)
              (orElse (jitter r) RETRY_DEFAULTS_jitter)
              (orElse (shouldRetry r) isRetryableError)"
    using assms(1-3) by (simp add: buildPolicies_def composePolicies_def)
  have "fst (?P (executeWithTracking fn) ?v) = Reject e \<and>
        attemptCount (snd (?P (executeWithTracking fn) ?v)) =
          attemptCount ?v + retriesGranted (orElse (attempts r) RETRY_DEFAULTS_attempts) + 1"
    unfolding P createRetryPolicy_def
    using assms(5,6)
          retryLoop_always_rejects
            [where fn = fn and e = e and classify = "orElse (shouldRetry r) isRetryableError"]
    by blast
  with p have x: "x = Reject e"
    and c: "attemptCount w1 = retriesGranted (orElse (attempts r) RETRY_DEFAULTS_attempts) + 1"
    by simp_all
  have tt: "transformCockatielError (transformCockatielError e (fallbackConfig options))
              (fullConfig options) = e"
    using assms(7,8) by (simp add: transform_twice)
  have "resilientCall ?P fn options w =
          (Reject e, emit [OnFailure (attemptCount w1) e] w1)"
    using p [unfolded x] assms(4,9,10)
          call_rejects_no_fallback
            [where P = ?P and fn = fn and w = w and e = e and ?w1.0 = w1 and options = options]
    unfolding tt by simp
  then show ?thesis
    unfolding withResilience_def using c by (simp add: emit_def)
qed

lemma http500_plain: "\<not> isCockatielError (createHttpError 500)"
  by (simp add: createHttpError_def)

text \<open>
  Claim C2 at a concrete input: \<open>retry: {attempts: 2, delay: 10, jitter: false}\<close> and an
  operation that always rejects with the retryable \<open>createHttpError(500)\<close>. The operation is
  invoked twice and one retry is notified, but the call then rejects with the operation's
  own error and reports that error to \<open>onFailure\<close>; no \<open>RetryExhaustedError\<close> with
  \<open>attempts = 2\<close> is raised, because the message \<open>HTTP Error 500\<close> does not contain
  \<open>retry\<close>.
\<close>

theorem C2_exhaustion_surfaces_raw_error:
  "isRetryableError (createHttpError 500) \<and>
   withResilience (alwaysRejects (createHttpError 500))
     ((noOptions :: nat resilienceOptions)\<lparr>retry := Some retryTwice\<rparr>) idleWorld =
   (Reject (createHttpError 500),
    idleWorld\<lparr>attemptCount := 2,
       trace := [OnRetry 1 2 (createHttpError 500) 10, OnFailure 2 (createHttpError 500)]\<rparr>)"
proof -
  have two: "nat (2 - 1) = Suc 0" by simp
  show ?thesis
    using http500_retryable http500_message http500_plain
    by (simp add: wrapper_defs scenario_defs two Let_def transform_plain)
qed

section \<open>Fallback values and the metrics\<close>

text \<open>
  Claim C3 at a concrete input: an operation that always rejects with
  \<open>new Error('Fail')\<close>, wrapped with the fallback value 7 and with metrics whose callbacks
  return normally. The call resolves to 7, but the only notification sent is \<open>onSuccess\<close>
  with one attempt: \<open>onFailure\<close> is not invoked, neither before nor after the fallback is
  applied.
\<close>

theorem C3_fallback_skips_onFailure:
  "withResilience (alwaysRejects (plainError ''Fail''))
     (noOptions\<lparr>fallback := Data (7::nat), metrics := Some quietMetrics\<rparr>) idleWorld =
   (Resolve (Data 7), idleWorld\<lparr>attemptCount := 1, trace := [OnSuccess 1]\<rparr>)"
  by (simp add: wrapper_defs scenario_defs quietMetrics_def plainError_def Let_def)

section \<open>Errors that are not retried\<close>

text \<open>
  Claim C4. With any retry configuration, whatever its \<open>attempts\<close>, an operation whose first
  invocation fails with an error that the \<open>shouldRetry\<close> predicate (or, without one, the
  default classifier) rejects is invoked exactly once by the wrapped call. A timeout may
  be configured as well, and so may a bulkhead, provided it has a free slot when the call
  arrives.
\<close>

theorem C4_non_retryable_invoked_once:
  assumes "retry options = Some r"
    and "fn 0 = Reject e"
    and "\<not> orElse (shouldRetry r) isRetryableError e"
    and "case bulkhead options of
           None \<Rightarrow> True
         | Some b \<Rightarrow> int (inFlight w) < orElse (maxConcurrent b) BULKHEAD_DEFAULTS_maxConcurrent"
  shows "attemptCount (snd (withResilience fn options w)) = 1"
proof -
  from assms pipeline_non_retryable [where options = options and r = r and fn = fn and e = e
                                         and w = w]
  obtain w1 where p: "composePolicies (buildPolicies options) (executeWithTracking fn)
                        (w\<lparr>attemptCount := 0\<rparr>) = (Reject e, w1)" and c: "attemptCount w1 = 1"
    by blast
  show ?thesis
    unfolding withResilience_def
    using p c call_attemptCount [where P = "composePolicies (buildPolicies options)" and fn = fn
                                   and w = w and r = "Reject e" and ?w1.0 = w1
                                   and options = options]
    by simp
qed

lemma http404_not_retryable: "\<not> isRetryableError (createHttpError 404)"
  by code_simp

text \<open>
  C4 for \<open>createHttpError(404)\<close>, the default classifier and \<open>attempts: 5\<close>.
\<close>

theorem C4_non_retryable_invoked_once_witness:
  "\<not> isRetryableError (createHttpError 404) \<and>
   attemptCount (snd (withResilience (alwaysRejects (createHttpError 404))
     ((noOptions :: nat resilienceOptions)\<lparr>retry := Some retryFive\<rparr>) idleWorld)) = 1"
proof -
  let ?o = "(noOptions :: nat resilienceOptions)\<lparr>retry := Some retryFive\<rparr>"
  have a: "retry ?o = Some retryFive" by simp
  have b: "alwaysRejects (createHttpError 404) 0 = (Reject (createHttpError 404) :: nat jsvalue outcome)"
    by (simp add: alwaysRejects_def)
  have c: "\<not> orElse (shouldRetry retryFive) isRetryableError (createHttpError 404)"
    using http404_not_retryable by (simp add: retryFive_def)
  have d: "case bulkhead ?o of None \<Rightarrow> True
           | Some b \<Rightarrow> int (inFlight idleWorld) < orElse (maxConcurrent b) BULKHEAD_DEFAULTS_maxConcurrent"
    by (simp add: noOptions_def)
  show ?thesis
    using http404_not_retryable a b c d
          C4_non_retryable_invoked_once
            [where options = ?o and r = retryFive and fn = "alwaysRejects (createHttpError 404)"
               and e = "createHttpError 404" and w = idleWorld]
    by simp
qed

section \<open>The default classifier\<close>

text \<open>
  Claim C5 as stated fails. An \<open>Error\<close> with \<open>status = 404\<close> and \<open>code = 'ECONNRESET'\<close>
  carries one of the recognised network codes, yet the classifier returns false: the
  status check comes first.
\<close>

theorem C5_status_overrides_network_code_counterexample:
  "instanceofError resetWith404 \<and> codeOf resetWith404 = Str ''ECONNRESET'' \<and>
   ''ECONNRESET'' \<in> set NETWORK_ERROR_CODES \<and> \<not> isRetryableError resetWith404"
  by (simp add: resetWith404_def codeOf_def NETWORK_ERROR_CODES_def isRetryableError_def
                isHttpError_def getStatusCode_def statusOf_def statusCodeOf_def responseOf_def
                NON_RETRYABLE_STATUS_CODES_def)

lemma status_implies_http:
  "instanceofError e \<Longrightarrow> getStatusCode e = Some n \<Longrightarrow> isHttpError e"
  by (auto simp: getStatusCode_def isHttpError_def
           split: jsprop.splits jsresponse.splits)

text \<open>
  Claim C5, amended: the four cases hold in this order of priority. (1) Every value whose
  status code (the first number among \<open>status\<close>, \<open>statusCode\<close> and \<open>response.status\<close>) is one
  of 400, 401, 403, 404, 422 is not retryable. (2) Every \<open>Error\<close> whose status code is at
  least 500 is retryable. (3) Every \<open>Error\<close> whose status code is not one of the five above
  and whose \<open>code\<close> is a recognised network code, or whose lower-cased message contains
  \<open>fetch failed\<close> or \<open>network\<close>, is retryable. (4) Everything else is not retryable.
\<close>

theorem C5_isRetryableError_by_priority:
  "(\<forall>n. getStatusCode e = Some n \<and> n \<in> {400, 401, 403, 404, 422} \<longrightarrow> \<not> isRetryableError e) \<and>
   (\<forall>n. instanceofError e \<and> getStatusCode e = Some n \<and> 500 \<le> n \<longrightarrow> isRetryableError e) \<and>
   (instanceofError e \<and> (\<forall>n. getStatusCode e = Some n \<longrightarrow> n \<notin> {400, 401, 403, 404, 422}) \<and>
      (hasNetworkCode e \<or> hasNetworkMessage e) \<longrightarrow> isRetryableError e) \<and>
   (\<not> (instanceofError e \<and> (\<exists>n. getStatusCode e = Some n \<and> 500 \<le> n)) \<and>
    \<not> (instanceofError e \<and> (hasNetworkCode e \<or> hasNetworkMessage e)) \<longrightarrow>
      \<not> isRetryableError e)"
proof (intro conjI allI impI)
  fix n
  assume a: "getStatusCode e = Some n \<and> n \<in> {400, 401, 403, 404, 422}"
  show "\<not> isRetryableError e"
  proof (cases "instanceofError e")
    case True
    with a have "isHttpError e" by (simp add: status_implies_http)
    with a show ?thesis
      by (auto simp: isRetryableError_def NON_RETRYABLE_STATUS_CODES_def)
  next
    case False
    then show ?thesis by (simp add: isRetryableError_def isHttpError_def isNetworkError_def)
  qed
next
  fix n
  assume a: "instanceofError e \<and> getStatusCode e = Some n \<and> 500 \<le> n"
  then have "isHttpError e" by (simp add: status_implies_http)
  with a show "isRetryableError e"
    by (auto simp: isRetryableError_def NON_RETRYABLE_STATUS_CODES_def)
next
  assume a: "instanceofError e \<and> (\<forall>n. getStatusCode e = Some n \<longrightarrow> n \<notin> {400, 401, 403, 404, 422}) \<and>
      (hasNetworkCode e \<or> hasNetworkMessage e)"
  then have "isNetworkError e" by (auto simp: isNetworkError_def)
  with a show "isRetryableError e"
    by (auto simp: isRetryableError_def NON_RETRYABLE_STATUS_CODES_def split: option.splits)
next
  assume a: "\<not> (instanceofError e \<and> (\<exists>n. getStatusCode e = Some n \<and> 500 \<le> n)) \<and>
    \<not> (instanceofError e \<and> (hasNetworkCode e \<or> hasNetworkMessage e))"
  then have n: "\<not> isNetworkError e" by (auto simp: isNetworkError_def)
  have h: "isHttpError e \<Longrightarrow> instanceofError e" by (simp add: isHttpError_def split: if_splits)
  show "\<not> isRetryableError e"
    using a n h by (auto simp: isRetryableError_def split: option.splits if_splits)
qed

lemma classifier_examples:
  "getStatusCode (createHttpError 404) = Some 404"
  "getStatusCode (createHttpError 503) = Some 503"
  "getStatusCode (createNetworkError ''ETIMEDOUT'') = None"
  "hasNetworkCode (createNetworkError ''ETIMEDOUT'')"
  "getStatusCode (plainError ''Unknown error'') = None"
  "\<not> hasNetworkCode (plainError ''Unknown error'')"
  "\<not> hasNetworkMessage (plainError ''Unknown error'')"
  by code_simp+

text \<open>
  The amended C5 on the errors of retry.test.ts: HTTP 404, HTTP 503, a network error and
  an unknown error.
\<close>

theorem C5_isRetryableError_by_priority_witness:
  "\<not> isRetryableError (createHttpError 404) \<and> isRetryableError (createHttpError 503) \<and>
   isRetryableError (createNetworkError ''ETIMEDOUT'') \<and>
   \<not> isRetryableError (plainError ''Unknown error'')"
  using C5_isRetryableError_by_priority [of "createHttpError 404"]
        C5_isRetryableError_by_priority [of "createHttpError 503"]
        C5_isRetryableError_by_priority [of "createNetworkError ''ETIMEDOUT''"]
        C5_isRetryableError_by_priority [of "plainError ''Unknown error''"]
        classifier_examples
  by (simp add: createHttpError_def createNetworkError_def plainError_def)

section \<open>Bulkhead rejection\<close>

text \<open>
  Claim C6. When a call arrives while every slot is taken and the queue is full, and no
  fallback is configured, the \<open>BulkheadRejectedError\<close> that the wrapper reports to
  \<open>onFailure\<close> and then raises has \<open>queueSize\<close> and \<open>maxQueue\<close> both equal to the configured
  \<open>maxQueue\<close> (or its default); only an \<open>onFailure\<close> callback or a call of \<open>logger.error\<close>
  that throws replaces the raised error by what it throws. The rejection is immediate: the queue length and the
  in-flight count are unchanged, the operation is not invoked, and the only notifications
  are \<open>onBulkheadRejected\<close> and \<open>onFailure\<close>. This holds whether or not a timeout or a retry
  is configured.
\<close>

theorem C6_bulkhead_rejection_reports_maxQueue:
  assumes "bulkhead options = Some b"
    and "fallback options = Undefined"
    and "\<not> int (inFlight w) < orElse (maxConcurrent b) BULKHEAD_DEFAULTS_maxConcurrent"
    and "\<not> int (queued w) < orElse (maxQueue b) BULKHEAD_DEFAULTS_maxQueue"
  shows "withResilience fn options w =
           (Reject (case notifyFailure options 0
                           (BulkheadRejectedError
                              (orElse (maxQueue b) BULKHEAD_DEFAULTS_maxQueue)
                              (orElse (maxQueue b) BULKHEAD_DEFAULTS_maxQueue)) of
                      Some thrownByCallback \<Rightarrow> thrownByCallback
                    | None \<Rightarrow>
                        (case logWithMessage (logger options) (LogError 0)
                                (BulkheadRejectedError
                                   (orElse (maxQueue b) BULKHEAD_DEFAULTS_maxQueue)
                                   (orElse (maxQueue b) BULKHEAD_DEFAULTS_maxQueue)) of
                           Some thrownByLogger \<Rightarrow> thrownByLogger
                         | None \<Rightarrow> BulkheadRejectedError
                                     (orElse (maxQueue b) BULKHEAD_DEFAULTS_maxQueue)
                                     (orElse (maxQueue b) BULKHEAD_DEFAULTS_maxQueue))),
            w\<lparr>attemptCount := 0,
              trace := trace w @
                [OnBulkheadRejected (orElse (maxQueue b) BULKHEAD_DEFAULTS_maxQueue)
                                    (orElse (maxQueue b) BULKHEAD_DEFAULTS_maxQueue),
                 OnFailure 0 (BulkheadRejectedError
                                (orElse (maxQueue b) BULKHEAD_DEFAULTS_maxQueue)
                                (orElse (maxQueue b) BULKHEAD_DEFAULTS_maxQueue))]\<rparr>)"
proof -
  let ?v = "w\<lparr>attemptCount := 0\<rparr>"
  have mq: "maxQueueOf options = orElse (maxQueue b) BULKHEAD_DEFAULTS_maxQueue"
    using assms(1) by (simp add: maxQueueOf_def)
  have full: "\<not> int (inFlight ?v) < orElse (maxConcurrent b) BULKHEAD_DEFAULTS_maxConcurrent"
             "\<not> int (queued ?v) < orElse (maxQueue b) BULKHEAD_DEFAULTS_maxQueue"
    using assms(3,4) by simp_all
  have p: "composePolicies (buildPolicies options) (executeWithTracking fn) ?v =
             (Reject (CockatielBulkheadRejectedError ''Bulkhead capacity exceeded''),
              emit [OnBulkheadRejected (maxQueueOf options) (maxQueueOf options)] ?v)"
    by (rule pipeline_bulkhead_full [OF assms(1) full])
  show ?thesis
    unfolding withResilience_def
    using p assms(2) retry_in_BulkheadRejectedError
    by (simp add: resilientCall_def executeWithFallback_def catchBlock_def Let_def emit_def mq
             split: option.splits del: messageOf.simps)
qed

text \<open>
  C6 for \<open>maxConcurrent: 1, maxQueue: 0\<close> with one call in flight, as in the bulkhead
  tests.
\<close>

theorem C6_bulkhead_rejection_reports_maxQueue_witness:
  "withResilience (alwaysRejects (plainError ''Fail''))
     ((noOptions :: nat resilienceOptions)\<lparr>bulkhead := Some oneSlotNoQueue\<rparr>)
     (idleWorld\<lparr>inFlight := 1\<rparr>) =
   (Reject (BulkheadRejectedError 0 0),
    idleWorld\<lparr>inFlight := 1,
       trace := [OnBulkheadRejected 0 0, OnFailure 0 (BulkheadRejectedError 0 0)]\<rparr>)"
  using C6_bulkhead_rejection_reports_maxQueue
          [where options = "(noOptions :: nat resilienceOptions)\<lparr>bulkhead := Some oneSlotNoQueue\<rparr>"
             and b = oneSlotNoQueue and w = "idleWorld\<lparr>inFlight := 1\<rparr>"
             and fn = "alwaysRejects (plainError ''Fail'')"]
  by (simp add: noOptions_def oneSlotNoQueue_def idleWorld_def notifyFailure_def
                logWithMessage_def)

section \<open>Backoff delays\<close>

text \<open>
  Claim C7 as stated fails. With \<open>baseDelay = -5\<close> and \<open>maxDelay = 10\<close> the precondition
  \<open>baseDelay \<le> maxDelay\<close> holds, and the computed delay of the first retry is -5 for both
  kinds of backoff, below 0.
\<close>

theorem C7_negative_delay_counterexample:
  "(- 5 :: int) \<le> 10 \<and> computedDelay Fixed (- 5) 10 1 = - 5 \<and>
   computedDelay Exponential (- 5) 10 1 = - 5 \<and>
   \<not> (0 \<le> computedDelay Fixed (- 5) 10 1)"
  by (simp add: computedDelay_def)

lemma retryLoop_trace:
  assumes silent: "\<And>v. trace (snd (operation v)) = trace v"
  shows "\<exists>evs. trace (snd (retryLoop classify delayOf m left k operation w)) = trace w @ evs \<and>
           (\<forall>ev \<in> set evs. \<exists>a e v. ev = OnRetry a m e (delayOf a v))"
proof (induction left arbitrary: k w)
  case 0
  show ?case using silent [of w] by simp
next
  case (Suc left)
  obtain r w1 where o: "operation w = (r, w1)" by (cases "operation w")
  have t: "trace w1 = trace w" using silent [of w] o by simp
  show ?case
  proof (cases "\<exists>e. r = Reject e \<and> classify e")
    case True
    then obtain e where e: "r = Reject e" "classify e" by blast
    let ?w2 = "emit [OnRetry k m e (delayOf k w1)] w1"
    from Suc.IH [of "Suc k" ?w2] obtain evs where
      evs: "trace (snd (retryLoop classify delayOf m left (Suc k) operation ?w2)) = trace ?w2 @ evs"
           "\<forall>ev \<in> set evs. \<exists>a e v. ev = OnRetry a m e (delayOf a v)"
      by blast
    have "trace (snd (retryLoop classify delayOf m (Suc left) k operation w)) =
            trace w @ (OnRetry k m e (delayOf k w1) # evs)"
      using o e evs(1) t by (simp add: emit_def)
    moreover have "\<forall>ev \<in> set (OnRetry k m e (delayOf k w1) # evs).
                     \<exists>a e v. ev = OnRetry a m e (delayOf a v)"
      using evs(2) by auto
    ultimately show ?thesis by blast
  next
    case False
    then have "retryLoop classify delayOf m (Suc left) k operation w = (r, w1)"
      using o by (cases r) auto
    with t show ?thesis by simp
  qed
qed

lemma computedDelay_bounds:
  assumes "0 \<le> baseDelay" and "baseDelay \<le> maxDelayCap"
  shows "0 \<le> computedDelay kind baseDelay maxDelayCap attempt \<and>
         computedDelay kind baseDelay maxDelayCap attempt \<le> maxDelayCap"
  using assms by (cases kind) (simp_all add: computedDelay_def)

text \<open>
  Claim C7, amended: the precondition is \<open>0 \<le> baseDelay \<le> maxDelay\<close>. Then for every
  attempt the computed delay is \<open>min(baseDelay * 2^(attempt-1), maxDelay)\<close> for exponential
  and \<open>baseDelay\<close> for fixed backoff, it lies between 0 and \<open>maxDelay\<close>, with jitter disabled
  the generator yields exactly the computed delay, and every delay that a retry policy
  without jitter notifies to \<open>onRetry\<close> lies between 0 and \<open>maxDelay\<close>.
\<close>

theorem C7_delay_formula_and_bounds:
  assumes "0 \<le> baseDelay" and "baseDelay \<le> maxDelayCap"
  shows "computedDelay Exponential baseDelay maxDelayCap attempt =
           min (baseDelay * 2 ^ (attempt - 1)) maxDelayCap \<and>
         computedDelay Fixed baseDelay maxDelayCap attempt = baseDelay \<and>
         0 \<le> computedDelay kind baseDelay maxDelayCap attempt \<and>
         computedDelay kind baseDelay maxDelayCap attempt \<le> maxDelayCap \<and>
         backoffGenerator kind False baseDelay maxDelayCap attempt w =
           computedDelay kind baseDelay maxDelayCap attempt \<and>
         (\<exists>evs. trace (snd (createRetryPolicy n baseDelay maxDelayCap kind False classify
                                (executeWithTracking fn) w)) = trace w @ evs \<and>
                 (\<forall>ev \<in> set evs. \<exists>a e d. ev = OnRetry a n e d \<and> 0 \<le> d \<and> d \<le> maxDelayCap))"
proof -
  have g: "backoffGenerator kind False baseDelay maxDelayCap a v =
             computedDelay kind baseDelay maxDelayCap a" for a v
    by (cases kind) (simp_all add: backoffGenerator_def)
  have silent: "trace (snd (executeWithTracking fn v)) = trace v" for v
    by (simp add: executeWithTracking_def)
  from retryLoop_trace [of "executeWithTracking fn", OF silent]
  obtain evs where
    evs: "trace (snd (retryLoop classify (backoffGenerator kind False baseDelay maxDelayCap) n
                        (retriesGranted n) 1 (executeWithTracking fn) w)) = trace w @ evs"
         "\<forall>ev \<in> set evs. \<exists>a e v. ev = OnRetry a n e
                                       (backoffGenerator kind False baseDelay maxDelayCap a v)"
    by blast
  have "\<forall>ev \<in> set evs. \<exists>a e d. ev = OnRetry a n e d \<and> 0 \<le> d \<and> d \<le> maxDelayCap"
    using evs(2) computedDelay_bounds [OF assms] unfolding g by blast
  with evs(1) have tr: "\<exists>evs. trace (snd (createRetryPolicy n baseDelay maxDelayCap kind False
                          classify (executeWithTracking fn) w)) = trace w @ evs \<and>
                 (\<forall>ev \<in> set evs. \<exists>a e d. ev = OnRetry a n e d \<and> 0 \<le> d \<and> d \<le> maxDelayCap)"
    unfolding createRetryPolicy_def by blast
  show ?thesis
    using computedDelay_bounds [OF assms, of kind attempt] g [of attempt w] tr
    by (simp add: computedDelay_def)
qed

text \<open>
  The amended C7 for \<open>baseDelay = 50\<close> and \<open>maxDelay = 100\<close>, the numbers of the backoff
  cap test.
\<close>

theorem C7_delay_formula_and_bounds_witness:
  "(0::int) \<le> 50 \<and> (50::int) \<le> 100 \<and>
   computedDelay Exponential 50 100 1 = 50 \<and> computedDelay Exponential 50 100 3 = 100 \<and>
   computedDelay Fixed 50 100 3 = 50 \<and>
   backoffGenerator Exponential False 50 100 3 idleWorld = 100"
  using C7_delay_formula_and_bounds
          [where baseDelay = 50 and maxDelayCap = 100 and attempt = 1 and kind = Exponential
             and w = idleWorld and n = 5 and classify = isRetryableError
             and fn = "alwaysRejects (createHttpError 500) :: nat \<Rightarrow> nat jsvalue outcome"]
        C7_delay_formula_and_bounds
          [where baseDelay = 50 and maxDelayCap = 100 and attempt = 3 and kind = Exponential
             and w = idleWorld and n = 5 and classify = isRetryableError
             and fn = "alwaysRejects (createHttpError 500) :: nat \<Rightarrow> nat jsvalue outcome"]
  by simp


section \<open>The wrapper without any policy\<close>

text \<open>
  Without retry, bulkhead and timeout the operation is invoked once; its result passes
  through, and so does its error when no fallback is configured and the error is not one
  that transformCockatielError rewrites, as long as the callbacks and the logger return
  normally.
\<close>

lemma unconfigured_success:
  assumes "retry options = None" and "bulkhead options = None" and "timeout options = None"
    and "fn 0 = Resolve v"
    and "notifySuccess options 1 = None"
    and "logInfo (logger options) 1 = None"
  shows "withResilience fn options w =
           (Resolve v, w\<lparr>attemptCount := 1, trace := trace w @ [OnSuccess 1]\<rparr>)"
  using assms
  by (simp add: withResilience_def buildPolicies_def composePolicies_def resilientCall_def
                executeWithFallback_def executeWithTracking_def emit_def)

lemma unconfigured_failure:
  assumes "retry options = None" and "bulkhead options = None" and "timeout options = None"
    and "fallback options = Undefined"
    and "fn 0 = Reject e"
    and "\<not> isCockatielError e"
    and "\<not> (instanceofError e \<and> includesStr (messageOf e) ''retry'')"
    and "notifyFailure options 1 e = None"
    and "logWithMessage (logger options) (LogError 1) e = None"
  shows "withResilience fn options w =
           (Reject e, w\<lparr>attemptCount := 1, trace := trace w @ [OnFailure 1 e]\<rparr>)"
proof -
  have p: "composePolicies (buildPolicies options) (executeWithTracking fn)
             (w\<lparr>attemptCount := 0\<rparr>) = (Reject e, w\<lparr>attemptCount := 1\<rparr>)"
    using assms(1-3,5)
    by (simp add: buildPolicies_def composePolicies_def executeWithTracking_def)
  have tt: "transformCockatielError (transformCockatielError e (fallbackConfig options))
              (fullConfig options) = e"
    using assms(6,7) by (simp add: transform_twice)
  show ?thesis
    unfolding withResilience_def
    using p assms(4,8,9)
          call_rejects_no_fallback
            [where P = "composePolicies (buildPolicies options)" and fn = fn and w = w and e = e
               and ?w1.0 = "w\<lparr>attemptCount := 1\<rparr>" and options = options]
    unfolding tt by (simp add: emit_def)
qed

lemma rateLimited_message: "includesStr (messageOf rateLimited) ''retry''"
  by code_simp

text \<open>
  Claim C8 at a concrete input: no retry, bulkhead, timeout or fallback is configured, and
  the operation rejects with \<open>new Error('Rate limited, retry after 30s')\<close>. The operation
  is invoked once, but the caller does not get the operation's own error: it gets a
  \<open>RetryExhaustedError\<close> with 3 attempts around a \<open>RetryExhaustedError\<close> with 0 attempts
  around that error.
\<close>

theorem C8_unconfigured_wrapper_rewraps_error:
  "withResilience (alwaysRejects rateLimited) (noOptions :: nat resilienceOptions) idleWorld =
   (Reject (RetryExhaustedError 3 (RetryExhaustedError 0 rateLimited)),
    idleWorld\<lparr>attemptCount := 1,
       trace := [OnFailure 1 (RetryExhaustedError 3 (RetryExhaustedError 0 rateLimited))]\<rparr>)"
proof -
  let ?o = "noOptions :: nat resilienceOptions"
  let ?x = "RetryExhaustedError 3 (RetryExhaustedError 0 rateLimited)"
  have p: "composePolicies (buildPolicies ?o)
             (executeWithTracking (alwaysRejects rateLimited)) (idleWorld\<lparr>attemptCount := 0\<rparr>) =
           (Reject rateLimited, idleWorld\<lparr>attemptCount := 1\<rparr>)"
    by (simp add: wrapper_defs scenario_defs)
  have c: "\<not> isCockatielError rateLimited" "instanceofError rateLimited"
    by (simp_all add: rateLimited_def plainError_def)
  have f: "fallback ?o = Undefined" "logWithMessage (logger ?o) (LogError 1) ?x = None"
          "notifyFailure ?o 1 ?x = None"
    by (simp_all add: noOptions_def notifyFailure_def logWithMessage_def)
  have a: "attemptsOf ?o = 3"
    by (simp add: attemptsOf_def noOptions_def RETRY_DEFAULTS_attempts_def)
  have tt: "transformCockatielError (transformCockatielError rateLimited (fallbackConfig ?o))
              (fullConfig ?o) = ?x"
    using c rateLimited_message a by (simp add: transform_twice fullConfig_def fallbackConfig_def)
  show ?thesis
    unfolding withResilience_def
    using p f
          call_rejects_no_fallback
            [where P = "composePolicies (buildPolicies ?o)"
               and fn = "alwaysRejects rateLimited" and w = idleWorld and e = rateLimited
               and ?w1.0 = "idleWorld\<lparr>attemptCount := 1\<rparr>" and options = ?o]
    unfolding tt by (simp add: emit_def idleWorld_def)
qed

section \<open>Errors whose message mentions a retry\<close>






section \<open>Fallback functions\<close>




end
